theory Spec2Isabelle
  imports Main "HOL-Library.Sublist" "HOL-Library.AList"
begin

section \<open>Python values and exceptions\<close>

text \<open>
  Lurklib's \<open>IRC\<close> class (\<open>lurklib/__init__.py\<close>) is embedded as functions over an
  explicit record of the instance's fields. Text and byte strings are both
  \<^typ>\<open>string\<close>: a list of 8-bit characters. Every Python exception the modelled
  code can raise is a value of \<open>error\<close>, and every method returns the pair of its
  outcome (\<open>Inl\<close> an exception, \<open>Inr\<close> the returned value) and the state it
  leaves behind, since Python rolls nothing back when an exception is raised.

  \<open>Blocked\<close> is not an exception: it stands for \<open>socket.recv\<close> waiting for
  data that never arrives.
\<close>

datatype error =
    IndexError
  | KeyError
  | TypeError
  | ValueError
  | LookupError
  | UnicodeDecodeError
  | UnicodeEncodeError
  | UnboundLocalError
  | ProtocolError string
  | Blocked

text \<open>\<open>except LookupError\<close> also catches its subclasses \<open>IndexError\<close> and \<open>KeyError\<close>.\<close>

definition is_LookupError :: "error \<Rightarrow> bool" where
  "is_LookupError e = (e = LookupError \<or> e = IndexError \<or> e = KeyError)"

definition CR :: char where
  "CR = CHR 0x0D"

definition LF :: char where
  "LF = CHR 0x0A"

definition SOH :: char where
  "SOH = CHR 0x01"

definition BSL :: char where
  "BSL = CHR 0x5C"

text \<open>\<open>self._clrf\<close>, set once by the constructor.\<close>

definition clrf :: string where
  "clrf = [CR, LF]"

subsection \<open>Sequence indexing\<close>

text \<open>
  \<open>xs[i]\<close>. Python counts an index below zero back from the end of the sequence
  and raises \<open>IndexError\<close> for an index on neither side.
\<close>

definition getitem :: "'a list \<Rightarrow> int \<Rightarrow> error + 'a" where
  "getitem xs i =
     (if 0 \<le> i \<and> i < int (length xs) then Inr (xs ! nat i)
      else if i < 0 \<and> - int (length xs) \<le> i then Inr (xs ! nat (int (length xs) + i))
      else Inl IndexError)"

subsection \<open>String methods\<close>

text \<open>
  \<open>str.isspace\<close> on one character. A Python 2 byte string knows the six ASCII
  white-space characters; a Python 3 string also counts the separators
  \<open>0x1C\<close> to \<open>0x1F\<close>, \<open>0x85\<close> and \<open>0xA0\<close>.
\<close>

definition is_space :: "bool \<Rightarrow> char \<Rightarrow> bool" where
  "is_space py3 c =
     (let n = (of_char c :: nat)
      in (9 \<le> n \<and> n \<le> 13) \<or> n = 32 \<or>
         (py3 \<and> ((28 \<le> n \<and> n \<le> 31) \<or> n = 133 \<or> n = 160)))"

text \<open>\<open>s.split()\<close>: the maximal runs of characters that are not white space.\<close>

fun split_ws_aux :: "bool \<Rightarrow> string \<Rightarrow> string \<Rightarrow> string list" where
  "split_ws_aux py3 w [] = (if w = [] then [] else [w])"
| "split_ws_aux py3 w (c # cs) =
     (if is_space py3 c
      then (if w = [] then split_ws_aux py3 [] cs else w # split_ws_aux py3 [] cs)
      else split_ws_aux py3 (w @ [c]) cs)"

definition split_ws :: "bool \<Rightarrow> string \<Rightarrow> string list" where
  "split_ws py3 s = split_ws_aux py3 [] s"


text \<open>
  \<open>s.split(sep)\<close> and \<open>s.split(sep, n)\<close> for a separator that is not empty (the
  source passes \<open>'\r\n'\<close>, \<open>'@'\<close> and \<open>'!'\<close>): \<open>cnt\<close> is \<open>None\<close> without a limit,
  \<open>acc\<close> collects the piece being read.
\<close>

function split_sep :: "string \<Rightarrow> nat option \<Rightarrow> string \<Rightarrow> string \<Rightarrow> string list" where
  "split_sep sep cnt acc [] = [acc]"
| "split_sep sep cnt acc (c # cs) =
     (if cnt \<noteq> Some 0 \<and> sep \<noteq> [] \<and> prefix sep (c # cs)
      then acc # split_sep sep (map_option (\<lambda>k. k - 1) cnt) [] (drop (length sep) (c # cs))
      else split_sep sep cnt (acc @ [c]) cs)"
  by pat_completeness auto
termination
  by (relation "measure (\<lambda>(sep, cnt, acc, s). length s)") auto

definition py_split :: "string \<Rightarrow> string \<Rightarrow> string list" where
  "py_split sep s = split_sep sep None [] s"

definition py_split_max :: "string \<Rightarrow> nat \<Rightarrow> string \<Rightarrow> string list" where
  "py_split_max sep n s = split_sep sep (Some n) [] s"

text \<open>\<open>s.find(sub)\<close>: the first index where \<open>sub\<close> starts, or \<open>-1\<close>.\<close>

fun find_from :: "string \<Rightarrow> nat \<Rightarrow> string \<Rightarrow> int" where
  "find_from sub i [] = (if sub = [] then int i else - 1)"
| "find_from sub i (c # cs) =
     (if prefix sub (c # cs) then int i else find_from sub (Suc i) cs)"

definition py_find :: "string \<Rightarrow> string \<Rightarrow> int" where
  "py_find s sub = find_from sub 0 s"

text \<open>
  \<open>s.replace(old, new)\<close> and \<open>s.replace(old, new, n)\<close>, scanning from the left
  over occurrences that do not overlap. The source always passes a pattern that is
  not empty; for an empty one this function leaves the string alone, which Python
  does not.
\<close>

function replace_from :: "string \<Rightarrow> string \<Rightarrow> nat option \<Rightarrow> string \<Rightarrow> string" where
  "replace_from old new cnt [] = []"
| "replace_from old new cnt (c # cs) =
     (if cnt \<noteq> Some 0 \<and> old \<noteq> [] \<and> prefix old (c # cs)
      then new @ replace_from old new (map_option (\<lambda>k. k - 1) cnt) (drop (length old) (c # cs))
      else c # replace_from old new cnt cs)"
  by pat_completeness auto
termination
  by (relation "measure (\<lambda>(old, new, cnt, s). length s)") auto

definition py_replace :: "string \<Rightarrow> string \<Rightarrow> string \<Rightarrow> string" where
  "py_replace old new s = replace_from old new None s"

definition py_replace_max :: "string \<Rightarrow> string \<Rightarrow> nat \<Rightarrow> string \<Rightarrow> string" where
  "py_replace_max old new n s = replace_from old new (Some n) s"

text \<open>\<open>sep.join(xs)\<close>.\<close>

fun py_join :: "string \<Rightarrow> string list \<Rightarrow> string" where
  "py_join sep [] = []"
| "py_join sep [x] = x"
| "py_join sep (x # y # ys) = x @ sep @ py_join sep (y # ys)"

text \<open>
  Text of 7-bit characters only.
\<close>

definition is_ascii :: "string \<Rightarrow> bool" where
  "is_ascii t = list_all (\<lambda>c. (of_char c :: nat) < 128) t"

text \<open>
  \<open>s.upper()\<close> as it works on ASCII letters: a lower-case letter loses the bit of
  value 32, every other character is left alone. This is \<open>upper()\<close> of a Python 2
  byte string (in the C locale, which the interpreter starts in), and \<open>upper()\<close>
  of a Python 3 string on ASCII text. A Python 3 string also maps letters outside
  ASCII, some of them to characters this model cannot hold, so for Python 3 the
  function is Python's on ASCII text only: what is proved of upper-cased text
  below is stated for Python 2 or for ASCII text.
\<close>

fun upper_char :: "char \<Rightarrow> char" where
  "upper_char (Char b0 b1 b2 b3 b4 b5 b6 b7) =
     (let n = (of_char (Char b0 b1 b2 b3 b4 b5 b6 b7) :: nat)
      in if 97 \<le> n \<and> n \<le> 122 then Char b0 b1 b2 b3 b4 False b6 b7
         else Char b0 b1 b2 b3 b4 b5 b6 b7)"

definition upper :: "string \<Rightarrow> string" where
  "upper s = map upper_char s"

section \<open>The state of an \<open>IRC\<close> instance\<close>

text \<open>
  The values kept in \<open>self.channels\<close>: dictionaries with string keys, lists and
  strings. A channel's entry is a dictionary whose key \<open>'USERS'\<close> holds the
  dictionary from nick to attribute list, and whose key \<open>'TOPIC'\<close> holds the topic.
  A dictionary is an association list in insertion order, which is the order a
  \<open>for\<close> loop visits its keys in. Two entries never share a dictionary object.
\<close>

datatype pyval =
    PStr string
  | PList "pyval list"
  | PDict "(string \<times> pyval) list"

text \<open>
  An entry of the CTCP reply table \<open>self.ctcps\<close>: a string, an integer, a callable
  (given by the string that calling it and applying \<open>str\<close> yields), or \<open>None\<close>.
\<close>

datatype ctcp_value =
    CStr string
  | CInt int
  | CCallable string
  | CNone

text \<open>
  Methods of the class that live in other modules of the package (\<open>sending\<close>,
  \<open>channel\<close>, \<open>connection\<close>) are not part of this file. A call to one of
  them is recorded, with its arguments, in the field \<open>calls\<close>; the call is taken to
  return, and what it does to the other fields is outside this model.
\<close>

datatype call =
    Call_notice string string
  | Call_join string
  | Call_parse_cmode_string string string
  | Call_quit
  | Call_parse string

text \<open>
  Python's codec machinery, by codec name: \<open>bytes(msg, name)\<close> and
  \<open>msg.encode(name)\<close> are \<open>encode\<close>, \<open>data.decode(name)\<close> is \<open>decode\<close>. An
  unknown name raises \<open>LookupError\<close>.
\<close>

record codecs =
  encode :: "string \<Rightarrow> string \<Rightarrow> error + string"
  decode :: "string \<Rightarrow> string \<Rightarrow> error + string"

text \<open>
  \<open>py3\<close> is \<open>self.m_sys.version_info[0] > 2\<close>. \<open>sock_in\<close> holds what the coming
  calls of \<open>self.socket.recv(4096)\<close> return, in order; \<open>sock_out\<close> holds what has
  been handed to \<open>self.socket.send\<close>, which is taken to accept it.
\<close>

record irc =
  py3 :: bool
  encoding :: string
  fallback_encoding :: string
  sock_in :: "string list"
  sock_out :: "string list"
  buffer :: "string list"
  index :: int
  current_nick :: string
  channels :: "(string \<times> pyval) list"
  lusers :: "(string \<times> string) list"
  ctcps :: "(string \<times> ctcp_value) list"
  error_dictionary :: "string list"
  calls :: "call list"

type_synonym 'a outcome = "(error + 'a) \<times> irc"

section \<open>Sending and framing\<close>

text \<open>\<open>IRC.find\<close>: whether \<open>needle\<close> occurs in \<open>haystack\<close>.\<close>

definition find_IRC :: "string \<Rightarrow> string \<Rightarrow> bool" where
  "find_IRC haystack needle =
     (let qstatus = py_find haystack needle
      in if qstatus = - 1 then False else True)"

text \<open>\<open>IRC.send\<close>.\<close>

definition send :: "codecs \<Rightarrow> string \<Rightarrow> irc \<Rightarrow> unit outcome" where
  "send C msg0 s =
     (let msg = py_replace [LF] [BSL, CHR ''n''] (py_replace [CR] [BSL, CHR ''r''] msg0) @ clrf
      in if py3 s
         then (case encode C (encoding s) msg of
                 Inr data \<Rightarrow> (Inr (), s\<lparr>sock_out := sock_out s @ [data]\<rparr>)
               | Inl e \<Rightarrow>
                   if is_LookupError e
                   then (case encode C (fallback_encoding s) msg of
                           Inr data \<Rightarrow> (Inr (), s\<lparr>sock_out := sock_out s @ [data]\<rparr>)
                         | Inl e' \<Rightarrow> (Inl e', s))
                   else (Inl e, s))
         else (case encode C (encoding s) msg of
                 Inr data \<Rightarrow> (Inr (), s\<lparr>sock_out := sock_out s @ [data]\<rparr>)
               | Inl e \<Rightarrow>
                   if e = UnicodeDecodeError
                   then (case encode C (fallback_encoding s) msg of
                           Inr data \<Rightarrow> (Inr (), s\<lparr>sock_out := sock_out s @ [data]\<rparr>)
                         | Inl e' \<Rightarrow> (Inl e', s))
                   else (Inl e, s)))"

text \<open>
  What claim C9 says \<open>send\<close> makes of a message, in the claim's words: every
  carriage return becomes the two characters \<open>\r\<close>, every newline the two
  characters \<open>\n\<close>, and every other character stays.
\<close>

definition escape_crlf :: "string \<Rightarrow> string" where
  "escape_crlf msg =
     concat (map (\<lambda>c. if c = CR then [BSL, CHR ''r'']
                        else if c = LF then [BSL, CHR ''n''] else [c]) msg)"

text \<open>
  One reading step of \<open>IRC.mcon\<close>: \<open>self.socket.recv(4096)\<close>, decoded under
  Python 3, from the chunks the socket still holds to the text read and the chunks
  left. The handler of \<open>LookupError\<close> calls \<open>recv\<close> again and decodes what that
  call returns.
\<close>

definition mcon_recv :: "codecs \<Rightarrow> irc \<Rightarrow> string list \<Rightarrow> (error + string) \<times> string list" where
  "mcon_recv C s chunks =
     (case chunks of
        [] \<Rightarrow> (Inl Blocked, [])
      | c # cs \<Rightarrow>
          if py3 s
          then (case decode C (encoding s) c of
                  Inr t \<Rightarrow> (Inr t, cs)
                | Inl e \<Rightarrow>
                    if is_LookupError e
                    then (case cs of
                            [] \<Rightarrow> (Inl Blocked, [])
                          | c' # cs' \<Rightarrow>
                              (case decode C (fallback_encoding s) c' of
                                 Inr t \<Rightarrow> (Inr t, cs')
                               | Inl e' \<Rightarrow> (Inl e', cs')))
                    else (Inl e, cs))
          else (Inr c, cs))"

text \<open>
  The \<open>while\<close> loop of \<open>IRC.mcon\<close>, from the value of \<open>sdata\<close> and the chunks the
  socket still holds to the final \<open>sdata\<close> and the chunks left.
\<close>

function mcon_read :: "codecs \<Rightarrow> irc \<Rightarrow> string \<Rightarrow> string list \<Rightarrow> (error + string) \<times> string list" where
  "mcon_read C s sdata chunks =
     (case getitem sdata (- 1) of
        Inl e \<Rightarrow> (Inl e, chunks)
      | Inr final \<Rightarrow>
          if final = last clrf then (Inr sdata, chunks)
          else (case mcon_recv C s chunks of
                  (Inl e, rest) \<Rightarrow> (Inl e, rest)
                | (Inr t, rest) \<Rightarrow>
                    mcon_read C s ((if sdata = '' '' then [] else sdata) @ t) rest))"
  by pat_completeness auto
termination
  by (relation "measure (\<lambda>(C, s, sdata, chunks). length chunks)")
     (auto simp: mcon_recv_def split: list.splits sum.splits if_splits)

text \<open>The \<open>for\<close> loop of \<open>IRC.mcon\<close> over the lines of \<open>sdata\<close>.\<close>

fun mcon_lines :: "codecs \<Rightarrow> string list \<Rightarrow> irc \<Rightarrow> unit outcome" where
  "mcon_lines C [] s = (Inr (), s)"
| "mcon_lines C (line # lines) s =
     (case (if py_find line ''PING :'' = 0
            then send C (py_replace ''PING'' ''PONG'' line) s
            else (Inr (), s)) of
        (Inl e, s') \<Rightarrow> (Inl e, s')
      | (Inr u, s') \<Rightarrow>
          mcon_lines C lines
            (if line \<noteq> [] then s'\<lparr>buffer := buffer s' @ [line]\<rparr> else s'))"

text \<open>\<open>IRC.mcon\<close>.\<close>

definition mcon :: "codecs \<Rightarrow> irc \<Rightarrow> unit outcome" where
  "mcon C s =
     (case mcon_read C s '' '' (sock_in s) of
        (Inl e, rest) \<Rightarrow> (Inl e, s\<lparr>sock_in := rest\<rparr>)
      | (Inr sdata, rest) \<Rightarrow> mcon_lines C (py_split clrf sdata) (s\<lparr>sock_in := rest\<rparr>))"

section \<open>The buffer and its cursor\<close>

text \<open>
  Every call of \<open>mcon\<close> that returns has taken at least one chunk from the socket:
  this is what makes the loop of \<open>_recv\<close> end in the model.
\<close>

declare mcon_read.simps [simp del]

lemma send_fields:
  "sock_in (snd (send C m s)) = sock_in s"
  "buffer (snd (send C m s)) = buffer s"
  "index (snd (send C m s)) = index s"
  by (auto simp: send_def Let_def split: sum.splits)

lemma mcon_lines_sock_in: "sock_in (snd (mcon_lines C ls s)) = sock_in s"
proof (induction ls arbitrary: s)
  case Nil
  show ?case by simp
next
  case (Cons l ls)
  show ?case
  proof (cases "py_find l ''PING :'' = 0")
    case True
    then show ?thesis
      using Cons.IH send_fields(1)[of C "py_replace ''PING'' ''PONG'' l" s]
      by (cases "send C (py_replace ''PING'' ''PONG'' l) s") (auto split: sum.splits)
  next
    case False
    then show ?thesis using Cons.IH by simp
  qed
qed

lemma mcon_recv_shrinks:
  "mcon_recv C s chunks = (Inr t, rest) \<Longrightarrow> length rest < length chunks"
  by (auto simp: mcon_recv_def split: list.splits sum.splits if_splits)

lemma mcon_read_le:
  "mcon_read C s sdata chunks = (r, rest) \<Longrightarrow> length rest \<le> length chunks"
proof (induction C s sdata chunks rule: mcon_read.induct)
  case (1 C s sdata chunks)
  show ?case
  proof (cases "getitem sdata (- 1)")
    case (Inl e)
    with "1.prems" show ?thesis by (simp add: mcon_read.simps)
  next
    case (Inr final)
    show ?thesis
    proof (cases "final = last clrf")
      case True
      with Inr "1.prems" show ?thesis by (simp add: mcon_read.simps)
    next
      case False
      obtain q rest' where q: "mcon_recv C s chunks = (q, rest')"
        by (cases "mcon_recv C s chunks")
      show ?thesis
      proof (cases q)
        case (Inl e)
        with q Inr False "1.prems" have "rest = rest'" by (simp add: mcon_read.simps)
        moreover have "length rest' \<le> length chunks"
          using q by (auto simp: mcon_recv_def split: list.splits sum.splits if_splits)
        ultimately show ?thesis by simp
      next
        case (Inr t)
        have "length rest \<le> length rest'"
          using "1.IH"[OF \<open>getitem sdata (- 1) = Inr final\<close> False _ _] q Inr "1.prems"
            \<open>getitem sdata (- 1) = Inr final\<close> False
          by (simp add: mcon_read.simps)
        moreover have "length rest' < length chunks"
          using q Inr mcon_recv_shrinks by blast
        ultimately show ?thesis by simp
      qed
    qed
  qed
qed

lemma mcon_shrinks:
  assumes "mcon C s = (Inr u, s')"
  shows "length (sock_in s') < length (sock_in s)"
proof -
  obtain q rest where q: "mcon_recv C s (sock_in s) = (q, rest)"
    by (cases "mcon_recv C s (sock_in s)")
  obtain r rest2 where r: "mcon_read C s '' '' (sock_in s) = (r, rest2)"
    by (cases "mcon_read C s '' '' (sock_in s)")
  have g: "getitem '' '' (- 1) = Inr (CHR '' '')" by (simp add: getitem_def)
  have nl: "CHR '' '' \<noteq> last clrf" by (simp add: clrf_def LF_def)
  show ?thesis
  proof (cases q)
    case (Inl e)
    with q g nl have "mcon_read C s '' '' (sock_in s) = (Inl e, rest)"
      by (subst mcon_read.simps) simp
    with assms show ?thesis by (simp add: mcon_def)
  next
    case (Inr t)
    with q g nl have "mcon_read C s '' '' (sock_in s) = mcon_read C s ([] @ t) rest"
      by (subst mcon_read.simps) simp
    with r have "length rest2 \<le> length rest" using mcon_read_le by metis
    moreover have "length rest < length (sock_in s)" using q Inr mcon_recv_shrinks by blast
    moreover have "sock_in s' = rest2"
    proof (cases r)
      case (Inl e)
      with r assms show ?thesis by (simp add: mcon_def)
    next
      case (Inr sdata)
      with r assms have "mcon_lines C (py_split clrf sdata) (s\<lparr>sock_in := rest2\<rparr>) = (Inr u, s')"
        by (simp add: mcon_def)
      then show ?thesis
        using mcon_lines_sock_in[of C "py_split clrf sdata" "s\<lparr>sock_in := rest2\<rparr>"] by simp
    qed
    ultimately show ?thesis by simp
  qed
qed

text \<open>\<open>IRC._resetbuffer\<close>. (A leading underscore of the source is written \<open>u_\<close>.)\<close>

definition u_resetbuffer :: "irc \<Rightarrow> irc" where
  "u_resetbuffer s = s\<lparr>index := 0, buffer := []\<rparr>"

text \<open>
  The \<open>while\<close> loop of \<open>IRC._recv\<close>, entered with the current \<open>msg\<close>. When the
  index has run past the buffer, the handler of \<open>IndexError\<close> refills the buffer
  and steps the index back, and the loop tests the same \<open>msg\<close> again.
\<close>

function recv_loop :: "codecs \<Rightarrow> string \<Rightarrow> irc \<Rightarrow> string outcome" where
  "recv_loop C msg s =
     (if find_IRC msg ''PING :''
      then (case getitem (buffer s) (index s + 1) of
              Inr msg' \<Rightarrow> recv_loop C msg' (s\<lparr>index := index s + 1\<rparr>)
            | Inl e \<Rightarrow>
                (case mcon C (s\<lparr>index := index s + 1\<rparr>) of
                   (Inl e', s') \<Rightarrow> (Inl e', s')
                 | (Inr u, s') \<Rightarrow> recv_loop C msg (s'\<lparr>index := index s' - 1\<rparr>)))
      else (Inr msg, s\<lparr>index := index s + 1\<rparr>))"
  by pat_completeness auto
termination
  by (relation "measures [\<lambda>(C, msg, s). length (sock_in s),
                          \<lambda>(C, msg, s). nat (int (length (buffer s)) - index s)]")
     (auto simp: getitem_def Let_def split: if_splits dest: mcon_shrinks[OF sym])

declare recv_loop.simps [simp del]

text \<open>\<open>IRC._recv\<close>.\<close>

definition u_recv :: "codecs \<Rightarrow> irc \<Rightarrow> string outcome" where
  "u_recv C s =
     (case (if index s \<ge> int (length (buffer s)) then mcon C s else (Inr (), s)) of
        (Inl e, s1) \<Rightarrow> (Inl e, s1)
      | (Inr u, s1) \<Rightarrow>
          (case (if index s1 \<ge> 199 then mcon C (u_resetbuffer s1) else (Inr (), s1)) of
             (Inl e, s2) \<Rightarrow> (Inl e, s2)
           | (Inr u', s2) \<Rightarrow>
               (case getitem (buffer s2) (index s2) of
                  Inl e \<Rightarrow> (Inl e, s2)
                | Inr msg \<Rightarrow> recv_loop C msg s2)))"

text \<open>
  \<open>IRC.readable\<close>. The socket of the model has no clock: \<open>select\<close> reports it
  readable when a chunk is pending, whatever the timeout.
\<close>

definition readable :: "irc \<Rightarrow> bool" where
  "readable s =
     (if int (length (buffer s)) > index s then True
      else if sock_in s = [] then False else True)"



section \<open>Identities, dictionaries and CTCP\<close>

text \<open>
  What \<open>IRC._from_\<close> returns: the tuple \<open>(nick, user, host)\<close>, or the string it was
  given when that is no host mask.
\<close>

datatype who =
    Hostmask string string string
  | Raw string

definition u_from :: "string \<Rightarrow> who" where
  "u_from w =
     (let host = py_split_max ''@'' 1 w
      in case getitem host 0 of
           Inl e \<Rightarrow> Raw w
         | Inr host0 \<Rightarrow>
             (let nickident = py_split_max ''!'' 1 host0
              in case getitem nickident 0 of
                   Inl e \<Rightarrow> Raw w
                 | Inr nick \<Rightarrow>
                     (case getitem nickident 1 of
                        Inl e \<Rightarrow> Raw w
                      | Inr ident \<Rightarrow>
                          (case getitem host 1 of
                             Inl e \<Rightarrow> Raw w
                           | Inr host1 \<Rightarrow> Hostmask nick ident host1))))"

text \<open>
  \<open>who[0]\<close>: the nick of a tuple, the first character of a string, \<open>IndexError\<close> on
  the empty string.
\<close>

definition who0 :: "who \<Rightarrow> error + string" where
  "who0 w =
     (case w of
        Hostmask nick ident host \<Rightarrow> Inr nick
      | Raw str \<Rightarrow> (case getitem str 0 of Inl e \<Rightarrow> Inl e | Inr c \<Rightarrow> Inr [c]))"

text \<open>\<open>d[k]\<close>, \<open>d[k] = v\<close> and \<open>del d[k]\<close> with a string \<open>k\<close>.\<close>

definition dict_get :: "(string \<times> 'v) list \<Rightarrow> string \<Rightarrow> error + 'v" where
  "dict_get d k = (case map_of d k of None \<Rightarrow> Inl KeyError | Some v \<Rightarrow> Inr v)"

definition val_get :: "pyval \<Rightarrow> string \<Rightarrow> error + pyval" where
  "val_get x k =
     (case x of
        PDict d \<Rightarrow> dict_get d k
      | PStr str \<Rightarrow> Inl TypeError
      | PList l \<Rightarrow> Inl TypeError)"

definition val_set :: "pyval \<Rightarrow> string \<Rightarrow> pyval \<Rightarrow> error + pyval" where
  "val_set x k v =
     (case x of
        PDict d \<Rightarrow> Inr (PDict (AList.update k v d))
      | PStr str \<Rightarrow> Inl TypeError
      | PList l \<Rightarrow> Inl TypeError)"

definition val_del :: "pyval \<Rightarrow> string \<Rightarrow> error + pyval" where
  "val_del x k =
     (case x of
        PDict d \<Rightarrow>
          (case map_of d k of
             None \<Rightarrow> Inl KeyError
           | Some v \<Rightarrow> Inr (PDict (AList.delete k d)))
      | PStr str \<Rightarrow> Inl TypeError
      | PList l \<Rightarrow> Inl TypeError)"

text \<open>
  A statement that looks up \<open>self.channels[channel]['USERS']\<close> and then changes that
  dictionary in place by \<open>f\<close>.
\<close>

definition with_users ::
  "string \<Rightarrow> (pyval \<Rightarrow> error + pyval) \<Rightarrow> (string \<times> pyval) list \<Rightarrow> error + (string \<times> pyval) list" where
  "with_users channel f chans =
     (case dict_get chans channel of
        Inl e \<Rightarrow> Inl e
      | Inr entry \<Rightarrow>
          (case val_get entry ''USERS'' of
             Inl e \<Rightarrow> Inl e
           | Inr users \<Rightarrow>
               (case f users of
                  Inl e \<Rightarrow> Inl e
                | Inr users' \<Rightarrow>
                    (case val_set entry ''USERS'' users' of
                       Inl e \<Rightarrow> Inl e
                     | Inr entry' \<Rightarrow> Inr (AList.update channel entry' chans)))))"

text \<open>\<open>IRC.ctcp_encode\<close> and \<open>IRC.ctcp_decode\<close>.\<close>

definition ctcp_encode :: "string \<Rightarrow> string" where
  "ctcp_encode msg = [SOH] @ msg @ [SOH]"

definition ctcp_decode :: "string \<Rightarrow> string" where
  "ctcp_decode msg = py_replace [SOH] [] msg"

text \<open>
  \<open>int(x)\<close> on a string. White space around the number is dropped: the six ASCII
  white-space characters, and in a Python 3 string also \<open>0x85\<close> and \<open>0xA0\<close>
  (the separators \<open>0x1C\<close> to \<open>0x1F\<close>, white space for \<open>split\<close>, are none for
  \<open>int\<close>). A sign may come first, then decimal digits; Python 3, taken at
  version 3.6 or later, allows one underscore between two digits. Anything else
  is a \<open>ValueError\<close> (here \<open>None\<close>).
\<close>

definition int_space :: "bool \<Rightarrow> char \<Rightarrow> bool" where
  "int_space p3 c =
     (let n = (of_char c :: nat)
      in (9 \<le> n \<and> n \<le> 13) \<or> n = 32 \<or> (p3 \<and> (n = 133 \<or> n = 160)))"

definition is_digit :: "char \<Rightarrow> bool" where
  "is_digit c = (let n = (of_char c :: nat) in 48 \<le> n \<and> n \<le> 57)"

fun digits_ok :: "bool \<Rightarrow> string \<Rightarrow> bool" where
  "digits_ok p3 [] = False"
| "digits_ok p3 [c] = is_digit c"
| "digits_ok p3 (c # d # r) =
     (is_digit c \<and> (if p3 \<and> d = CHR ''_'' then digits_ok p3 r else digits_ok p3 (d # r)))"

definition digits_value :: "string \<Rightarrow> int" where
  "digits_value ds =
     foldl (\<lambda>a c. 10 * a + (int (of_char c) - 48)) 0 (filter (\<lambda>c. c \<noteq> CHR ''_'') ds)"

definition py_int :: "bool \<Rightarrow> string \<Rightarrow> int option" where
  "py_int p3 str =
     (let t = dropWhile (int_space p3) (rev (dropWhile (int_space p3) (rev str)))
      in case t of
           [] \<Rightarrow> None
         | c # cs \<Rightarrow>
             if c = CHR ''-''
             then (if digits_ok p3 cs then Some (- digits_value cs) else None)
             else if c = CHR ''+''
             then (if digits_ok p3 cs then Some (digits_value cs) else None)
             else if digits_ok p3 (c # cs) then Some (digits_value (c # cs)) else None)"

text \<open>
  The reply to a CTCP request whose first token is the key \<open>ctcp\<close> of the table,
  with the value \<open>v\<close> found there: the body of the \<open>if hasattr\<close> statement of
  \<open>stream\<close>. Only \<open>ValueError\<close> is handled.
\<close>

definition ctcp_echo :: "string \<Rightarrow> int \<Rightarrow> string list \<Rightarrow> error + string" where
  "ctcp_echo ctcp n segments =
     (case getitem segments n of
        Inl e \<Rightarrow> Inl e
      | Inr response \<Rightarrow> Inr (ctcp @ '' '' @ response))"

definition ctcp_response :: "bool \<Rightarrow> string \<Rightarrow> ctcp_value \<Rightarrow> string list \<Rightarrow> error + string" where
  "ctcp_response p3 ctcp v segments =
     (case v of
        CCallable r \<Rightarrow> Inr r
      | CInt n \<Rightarrow> ctcp_echo ctcp n segments
      | CStr str \<Rightarrow>
          (case py_int p3 str of
             None \<Rightarrow> Inr str
           | Some n \<Rightarrow> ctcp_echo ctcp n segments)
      | CNone \<Rightarrow> Inl TypeError)"

text \<open>
  The loop \<open>for ctcp in self.ctcps.keys()\<close> of \<open>stream\<close>, over the keys still to
  visit. \<open>self.notice\<close> belongs to another module: the call is recorded.
\<close>

fun ctcp_loop :: "string list \<Rightarrow> string list \<Rightarrow> who \<Rightarrow> irc \<Rightarrow> unit outcome" where
  "ctcp_loop [] segments w s = (Inr (), s)"
| "ctcp_loop (ctcp # keys) segments w s =
     (case getitem segments 0 of
        Inl e \<Rightarrow> (Inl e, s)
      | Inr token \<Rightarrow>
          if ctcp = token
          then (case dict_get (ctcps s) ctcp of
                  Inl e \<Rightarrow> (Inl e, s)
                | Inr v \<Rightarrow>
                    if v \<noteq> CNone
                    then (case ctcp_response (py3 s) ctcp v segments of
                            Inl e \<Rightarrow> (Inl e, s)
                          | Inr response \<Rightarrow>
                              (case who0 w of
                                 Inl e \<Rightarrow> (Inl e, s)
                               | Inr nick \<Rightarrow>
                                   (Inr (),
                                    s\<lparr>calls := calls s @
                                       [Call_notice nick (ctcp_encode response)]\<rparr>)))
                    else ctcp_loop keys segments w s)
          else ctcp_loop keys segments w s)"

section \<open>The event classifier\<close>

text \<open>
  The tuples \<open>IRC.stream\<close> returns, by their tag. \<open>JOIN_of_join channel\<close> is
  \<open>('JOIN', self.join(channel))\<close>: \<open>join\<close> belongs to another module, so the event
  keeps the argument of the call. \<open>UNKNOWN\<close> carries what \<open>_parse\<close> returned.
  \<open>MODE_self\<close> is the \<open>MODE\<close> tuple for the client's own nick, \<open>LUSERS\<close> carries
  \<open>self.lusers\<close>.
\<close>

datatype event =
    JOIN who string
  | JOIN_of_join string
  | PART who string string
  | PRIVMSG who string string
  | ACTION who string string
  | CTCP who string string
  | CTCP_REPLY who string string
  | NOTICE who string string
  | MODE who string string
  | MODE_self string
  | KICK who string string string
  | INVITE who string string
  | NICK who string
  | TOPIC who string string
  | QUIT who string
  | LUSERS "(string \<times> string) list"
  | ERROR string
  | UNKNOWN string

text \<open>The branches of \<open>stream\<close>, each from the tokens of the line.\<close>

definition stream_JOIN :: "string list \<Rightarrow> irc \<Rightarrow> event outcome" where
  "stream_JOIN segments s =
     (case getitem segments 0 of
        Inl e \<Rightarrow> (Inl e, s)
      | Inr seg0 \<Rightarrow>
          (let w = u_from (drop 1 seg0)
           in case getitem segments 2 of
                Inl e \<Rightarrow> (Inl e, s)
              | Inr seg2 \<Rightarrow>
                  (let channel = drop 1 seg2
                   in if map_of (channels s) channel = None
                      then (Inr (JOIN_of_join channel),
                            s\<lparr>index := index s - 1, calls := calls s @ [Call_join channel]\<rparr>)
                      else (case with_users channel
                                   (\<lambda>users. case who0 w of
                                       Inl e \<Rightarrow> Inl e
                                     | Inr nick \<Rightarrow>
                                         val_set users nick
                                           (PList [PStr [], PStr [], PStr [], PStr [], PStr []]))
                                   (channels s) of
                              Inl e \<Rightarrow> (Inl e, s)
                            | Inr chans \<Rightarrow> (Inr (JOIN w channel), s\<lparr>channels := chans\<rparr>)))))"

text \<open>
  In the \<open>PART\<close> branch the handler of \<open>IndexError\<close> guards a slice, which never
  raises: only the body of the \<open>try\<close> statement can run.
\<close>

definition stream_PART :: "string list \<Rightarrow> irc \<Rightarrow> event outcome" where
  "stream_PART segments s =
     (case getitem segments 0 of
        Inl e \<Rightarrow> (Inl e, s)
      | Inr seg0 \<Rightarrow>
          (let w = u_from (py_replace_max '':'' [] 1 seg0)
           in case getitem segments 2 of
                Inl e \<Rightarrow> (Inl e, s)
              | Inr channel \<Rightarrow>
                  (case with_users channel
                          (\<lambda>users. case who0 w of
                              Inl e \<Rightarrow> Inl e
                            | Inr nick \<Rightarrow> val_del users nick)
                          (channels s) of
                     Inl e \<Rightarrow> (Inl e, s)
                   | Inr chans \<Rightarrow>
                       (Inr (PART w channel
                               (py_replace_max '':'' [] 1 (py_join '' '' (drop 3 segments)))),
                        s\<lparr>channels := chans\<rparr>))))"

definition stream_PRIVMSG :: "string list \<Rightarrow> irc \<Rightarrow> event outcome" where
  "stream_PRIVMSG segments s =
     (case getitem segments 0 of
        Inl e \<Rightarrow> (Inl e, s)
      | Inr seg0 \<Rightarrow>
          (let w = u_from (py_replace_max '':'' [] 1 seg0);
               msg = py_replace_max '':'' [] 1 (py_join '' '' (drop 3 segments))
           in case getitem segments 2 of
                Inl e \<Rightarrow> (Inl e, s)
              | Inr target \<Rightarrow>
                  if py_find msg [SOH] = 0
                  then (let rctcp = upper (ctcp_decode msg);
                            segments' = split_ws (py3 s) rctcp
                        in case getitem segments' 0 of
                             Inl e \<Rightarrow> (Inl e, s)
                           | Inr token \<Rightarrow>
                               if token = ''ACTION''
                               then (Inr (ACTION w target
                                            (py_join '' '' (drop 1 (split_ws (py3 s) rctcp)))),
                                     s)
                               else (case ctcp_loop (map fst (ctcps s)) segments' w s of
                                       (Inl e, s') \<Rightarrow> (Inl e, s')
                                     | (Inr u, s') \<Rightarrow> (Inr (CTCP w target rctcp), s')))
                  else (Inr (PRIVMSG w target msg), s)))"

definition stream_NOTICE :: "string list \<Rightarrow> irc \<Rightarrow> event outcome" where
  "stream_NOTICE segments s =
     (case getitem segments 0 of
        Inl e \<Rightarrow> (Inl e, s)
      | Inr seg0 \<Rightarrow>
          (let w = u_from (py_replace_max '':'' [] 1 seg0);
               msg = py_replace_max '':'' [] 1 (py_join '' '' (drop 3 segments))
           in case getitem segments 2 of
                Inl e \<Rightarrow> (Inl e, s)
              | Inr target \<Rightarrow>
                  if py_find msg [SOH] = 0
                  then (Inr (CTCP_REPLY w target (ctcp_decode msg)), s)
                  else (Inr (NOTICE w target msg), s)))"

text \<open>\<open>self.parse_cmode_string\<close> belongs to another module: the call is recorded.\<close>

definition stream_MODE :: "string list \<Rightarrow> irc \<Rightarrow> event outcome" where
  "stream_MODE segments s =
     (let mode = py_replace_max '':'' [] 1 (py_join '' '' (drop 3 segments))
      in case getitem segments 0 of
           Inl e \<Rightarrow> (Inl e, s)
         | Inr seg0 \<Rightarrow>
             (let w = u_from (drop 1 seg0)
              in case getitem segments 2 of
                   Inl e \<Rightarrow> (Inl e, s)
                 | Inr target \<Rightarrow>
                     if target \<noteq> current_nick s
                     then (Inr (MODE w target mode),
                           s\<lparr>calls := calls s @ [Call_parse_cmode_string mode target]\<rparr>)
                     else (Inr (MODE_self (py_replace_max '':'' [] 1 mode)), s)))"

text \<open>
  The local variable \<open>channel\<close> of \<open>stream\<close> where the \<open>KICK\<close> branch reads it.
  \<open>stream\<close> assigns \<open>channel\<close> in its \<open>JOIN\<close>, \<open>PART\<close>, \<open>INVITE\<close>, \<open>NICK\<close> and
  \<open>TOPIC\<close> branches only, and one call runs one branch: in the \<open>KICK\<close> branch
  the variable has no value.
\<close>

definition channel_at_KICK :: "string option" where
  "channel_at_KICK = None"

definition stream_KICK :: "string list \<Rightarrow> irc \<Rightarrow> event outcome" where
  "stream_KICK segments s =
     (case getitem segments 0 of
        Inl e \<Rightarrow> (Inl e, s)
      | Inr seg0 \<Rightarrow>
          (let w = u_from (py_replace_max '':'' [] 1 seg0)
           in case getitem segments 3 of
                Inl e \<Rightarrow> (Inl e, s)
              | Inr seg3 \<Rightarrow>
                  (case (if current_nick s = seg3
                         then (case dict_get (channels s) ''USERS'' of
                                 Inl e \<Rightarrow> (Inl e, s)
                               | Inr entry \<Rightarrow>
                                   (case getitem segments 2 of
                                      Inl e \<Rightarrow> (Inl e, s)
                                    | Inr seg2 \<Rightarrow>
                                        (case val_del entry seg2 of
                                           Inl e \<Rightarrow> (Inl e, s)
                                         | Inr entry' \<Rightarrow>
                                             (Inr (),
                                              s\<lparr>channels :=
                                                  AList.update ''USERS'' entry' (channels s)\<rparr>))))
                         else (Inr (), s)) of
                     (Inl e, s1) \<Rightarrow> (Inl e, s1)
                   | (Inr u, s1) \<Rightarrow>
                       (case channel_at_KICK of
                          None \<Rightarrow> (Inl UnboundLocalError, s1)
                        | Some channel \<Rightarrow>
                            (case dict_get (channels s1) channel of
                               Inl e \<Rightarrow> (Inl e, s1)
                             | Inr entry \<Rightarrow>
                                 (case val_del entry seg3 of
                                    Inl e \<Rightarrow> (Inl e, s1)
                                  | Inr entry' \<Rightarrow>
                                      (case getitem segments 2 of
                                         Inl e \<Rightarrow> (Inl e, s1)
                                       | Inr seg2 \<Rightarrow>
                                           (Inr (KICK w seg2 seg3
                                                   (py_replace_max '':'' [] 1
                                                      (py_join '' '' (drop 4 segments)))),
                                            s1\<lparr>channels :=
                                                AList.update channel entry' (channels s1)\<rparr>))))))))"

definition stream_INVITE :: "string list \<Rightarrow> irc \<Rightarrow> event outcome" where
  "stream_INVITE segments s =
     (case getitem segments 0 of
        Inl e \<Rightarrow> (Inl e, s)
      | Inr seg0 \<Rightarrow>
          (let w = u_from (py_replace_max '':'' [] 1 seg0)
           in case getitem segments 3 of
                Inl e \<Rightarrow> (Inl e, s)
              | Inr seg3 \<Rightarrow>
                  (case getitem segments 2 of
                     Inl e \<Rightarrow> (Inl e, s)
                   | Inr seg2 \<Rightarrow>
                       (Inr (INVITE w seg2 (py_replace_max '':'' [] 1 seg3)), s))))"

text \<open>
  The loop \<open>for channel in self.channels\<close> of the \<open>NICK\<close> branch, over the channel
  names still to visit.
\<close>

fun nick_loop :: "string list \<Rightarrow> who \<Rightarrow> string \<Rightarrow> irc \<Rightarrow> unit outcome" where
  "nick_loop [] w new_nick s = (Inr (), s)"
| "nick_loop (channel # rest) w new_nick s =
     (case with_users channel
             (\<lambda>users. case who0 w of
                 Inl e \<Rightarrow> Inl e
               | Inr nick \<Rightarrow>
                   (case val_get users nick of
                      Inl e \<Rightarrow> Inl e
                    | Inr priv_level \<Rightarrow>
                        (case val_del users nick of
                           Inl e \<Rightarrow> Inl e
                         | Inr users' \<Rightarrow> val_set users' new_nick priv_level)))
             (channels s) of
        Inl e \<Rightarrow> (Inl e, s)
      | Inr chans \<Rightarrow> nick_loop rest w new_nick (s\<lparr>channels := chans\<rparr>))"

definition stream_NICK :: "string list \<Rightarrow> irc \<Rightarrow> event outcome" where
  "stream_NICK segments s =
     (case getitem segments 0 of
        Inl e \<Rightarrow> (Inl e, s)
      | Inr seg0 \<Rightarrow>
          (let w = u_from (py_replace_max '':'' [] 1 seg0);
               new_nick = py_join '' '' (drop 2 segments)
           in case who0 w of
                Inl e \<Rightarrow> (Inl e, s)
              | Inr nick \<Rightarrow>
                  (let s1 = (if current_nick s = nick then s\<lparr>current_nick := new_nick\<rparr> else s)
                   in case nick_loop (map fst (channels s1)) w new_nick s1 of
                        (Inl e, s2) \<Rightarrow> (Inl e, s2)
                      | (Inr u, s2) \<Rightarrow> (Inr (NICK w new_nick), s2))))"

definition stream_TOPIC :: "string list \<Rightarrow> irc \<Rightarrow> event outcome" where
  "stream_TOPIC segments s =
     (case getitem segments 0 of
        Inl e \<Rightarrow> (Inl e, s)
      | Inr seg0 \<Rightarrow>
          (let w = u_from (py_replace_max '':'' [] 1 seg0)
           in case getitem segments 2 of
                Inl e \<Rightarrow> (Inl e, s)
              | Inr channel \<Rightarrow>
                  (let topic = py_replace_max '':'' [] 1 (py_join '' '' (drop 3 segments))
                   in case dict_get (channels s) channel of
                        Inl e \<Rightarrow> (Inl e, s)
                      | Inr entry \<Rightarrow>
                          (case val_set entry ''TOPIC'' (PStr topic) of
                             Inl e \<Rightarrow> (Inl e, s)
                           | Inr entry' \<Rightarrow>
                               (Inr (TOPIC w channel topic),
                                s\<lparr>channels := AList.update channel entry' (channels s)\<rparr>)))))"

definition stream_QUIT :: "string list \<Rightarrow> irc \<Rightarrow> event outcome" where
  "stream_QUIT segments s =
     (case getitem segments 0 of
        Inl e \<Rightarrow> (Inl e, s)
      | Inr seg0 \<Rightarrow>
          (Inr (QUIT (u_from (py_replace_max '':'' [] 1 seg0))
                  (py_replace_max '':'' [] 1 (py_join '' '' (drop 2 segments)))),
           s))"

text \<open>
  The branches for the numeric replies 250 to 266 store tokens in \<open>self.lusers\<close>
  one after the other: \<open>(key, i, k)\<close> stands for the statement
  \<open>self.lusers[key] = segments[i][k:]\<close>.
\<close>

fun stream_LUSERS :: "(string \<times> int \<times> nat) list \<Rightarrow> string list \<Rightarrow> irc \<Rightarrow> event outcome" where
  "stream_LUSERS [] segments s = (Inr (LUSERS (lusers s)), s)"
| "stream_LUSERS ((key, i, k) # rest) segments s =
     (case getitem segments i of
        Inl e \<Rightarrow> (Inl e, s)
      | Inr v \<Rightarrow>
          stream_LUSERS rest segments (s\<lparr>lusers := AList.update key (drop k v) (lusers s)\<rparr>))"

text \<open>
  Modelled from the spec: \<open>_parse\<close>, the method the last branch of \<open>stream\<close>
  hands the line to, which is not part of this file. Section 4.4 of the
  specification: anything else is to ``fall through to a generic, lower-fidelity
  parser and emit \<open>UNKNOWN\<close>''. The specification says no more of the parser: it
  is taken to return, the call is recorded, and the event keeps the line it was
  given. What \<open>stream\<close> does with a line that reaches this branch is therefore
  known from the specification only, not from the source.
\<close>

definition u_parse :: "string \<Rightarrow> irc \<Rightarrow> string outcome" where
  "u_parse data s = (Inr data, s\<lparr>calls := calls s @ [Call_parse data]\<rparr>)"

text \<open>
  What \<open>stream\<close> does with the line \<open>data\<close> that \<open>_recv\<close> returned. \<open>self.quit\<close>
  belongs to another module: the call is recorded.
\<close>

definition stream_dispatch :: "string \<Rightarrow> irc \<Rightarrow> event outcome" where
  "stream_dispatch data s =
     (let segments = split_ws (py3 s) data
      in case getitem segments 1 of
           Inl e \<Rightarrow> (Inl e, s)
         | Inr cmd \<Rightarrow>
             if cmd = ''JOIN'' then stream_JOIN segments s
             else if cmd = ''PART'' then stream_PART segments s
             else if cmd = ''PRIVMSG'' then stream_PRIVMSG segments s
             else if cmd = ''NOTICE'' then stream_NOTICE segments s
             else if cmd = ''MODE'' then stream_MODE segments s
             else if cmd = ''KICK'' then stream_KICK segments s
             else if cmd = ''INVITE'' then stream_INVITE segments s
             else if cmd = ''NICK'' then stream_NICK segments s
             else if cmd = ''TOPIC'' then stream_TOPIC segments s
             else if cmd = ''QUIT'' then stream_QUIT segments s
             else if cmd = ''250''
             then stream_LUSERS
                    [(''HIGHESTCONNECTIONS'', 6, 0), (''TOTALCONNECTIONS'', 9, 1)] segments s
             else if cmd = ''251''
             then stream_LUSERS
                    [(''USERS'', 5, 0), (''INVISIBLE'', 8, 0), (''SERVERS'', 11, 0)] segments s
             else if cmd = ''252'' then stream_LUSERS [(''OPERATORS'', 3, 0)] segments s
             else if cmd = ''253'' then stream_LUSERS [(''UNKNOWN'', 3, 0)] segments s
             else if cmd = ''254'' then stream_LUSERS [(''CHANNELS'', 3, 0)] segments s
             else if cmd = ''255''
             then stream_LUSERS [(''CLIENTS'', 5, 0), (''LSERVERS'', 8, 0)] segments s
             else if cmd = ''265''
             then stream_LUSERS [(''LOCALUSERS'', 6, 0), (''LOCALMAX'', 8, 0)] segments s
             else if cmd = ''266''
             then stream_LUSERS [(''GLOBALUSERS'', 6, 0), (''GLOBALMAX'', 8, 0)] segments s
             else (case getitem segments 0 of
                     Inl e \<Rightarrow> (Inl e, s)
                   | Inr seg0 \<Rightarrow>
                       if seg0 = ''ERROR''
                       then (Inr (ERROR (py_replace_max '':'' [] 1
                                           (py_join '' '' (drop 1 segments)))),
                             s\<lparr>calls := calls s @ [Call_quit]\<rparr>)
                       else (case u_parse data s of
                               (Inl e, s') \<Rightarrow> (Inl e, s')
                             | (Inr parsed, s') \<Rightarrow> (Inr (UNKNOWN parsed), s'))))"

text \<open>
  \<open>IRC.stream\<close>: \<open>None\<close> when a timeout other than the default 1000 was asked for
  and nothing is readable, the next event otherwise.
\<close>

definition stream :: "codecs \<Rightarrow> int \<Rightarrow> irc \<Rightarrow> event option outcome" where
  "stream C timeout s =
     (if timeout \<noteq> 1000 \<and> readable s = False then (Inr None, s)
      else (case u_recv C s of
              (Inl e, s1) \<Rightarrow> (Inl e, s1)
            | (Inr data, s1) \<Rightarrow>
                (case stream_dispatch data s1 of
                   (Inl e, s2) \<Rightarrow> (Inl e, s2)
                 | (Inr ev, s2) \<Rightarrow> (Inr (Some ev), s2))))"

section \<open>Example environment\<close>

text \<open>
  A codec table for the examples. \<open>ascii\<close> accepts 7-bit text and maps it to
  itself, \<open>latin-1\<close> maps every 8-bit character to itself, and no other codec is
  installed.
\<close>

definition example_codecs :: codecs where
  "example_codecs =
     \<lparr>encode = (\<lambda>name t.
         if name = ''ascii'' then (if is_ascii t then Inr t else Inl UnicodeEncodeError)
         else if name = ''latin-1'' then Inr t
         else Inl LookupError),
      decode = (\<lambda>name t.
         if name = ''ascii'' then (if is_ascii t then Inr t else Inl UnicodeDecodeError)
         else if name = ''latin-1'' then Inr t
         else Inl LookupError)\<rparr>"

text \<open>
  An example state, before any traffic: Python 3, \<open>latin-1\<close> for both encodings,
  the nick \<open>Lurklib\<close>, no channel joined and an empty CTCP table. (The constructor's
  defaults are \<open>UTF-8\<close> and a table of four entries; the examples set what they
  need.)
\<close>

definition irc0 :: irc where
  "irc0 = \<lparr>py3 = True, encoding = ''latin-1'', fallback_encoding = ''latin-1'',
            sock_in = [], sock_out = [], buffer = [], index = 0,
            current_nick = ''Lurklib'', channels = [], lusers = [], ctcps = [],
            error_dictionary = [], calls = []\<rparr>"

text \<open>The attribute list a joining user gets.\<close>

definition fresh_attrs :: pyval where
  "fresh_attrs = PList [PStr [], PStr [], PStr [], PStr [], PStr []]"

section \<open>Claims\<close>

subsection \<open>C1: a KICK line\<close>

text \<open>
  The \<open>KICK\<close> branch never returns an event, whatever the line and the state:
  when the kicked nick is the client's own, it first looks up a channel literally
  named \<open>USERS\<close>; in every case it then reads the local variable \<open>channel\<close>,
  which has no value there.
\<close>

lemma stream_KICK_raises: "fst (stream_KICK segments s) \<noteq> Inr ev"
  by (simp add: stream_KICK_def channel_at_KICK_def Let_def split: sum.splits prod.splits)

lemma stream_dispatch_KICK_raises:
  "getitem (split_ws (py3 s) data) 1 = Inr ''KICK'' \<Longrightarrow> fst (stream_dispatch data s) \<noteq> Inr ev"
  by (simp add: stream_dispatch_def Let_def stream_KICK_raises)

text \<open>When the client itself is kicked, the lookup of a channel named \<open>USERS\<close> fails.\<close>

lemma KICK_self_raises_key_error:
  "stream_dispatch '':op!o@h KICK #chan Lurklib :bye''
     (irc0\<lparr>channels := [(''#chan'', PDict [(''USERS'', PDict [(''Lurklib'', fresh_attrs)])])]\<rparr>)
   = (Inl KeyError,
      irc0\<lparr>channels := [(''#chan'', PDict [(''USERS'', PDict [(''Lurklib'', fresh_attrs)])])]\<rparr>)"
  by (simp add: stream_dispatch_def stream_KICK_def split_ws_def is_space_def getitem_def
      Let_def irc0_def channel_at_KICK_def dict_get_def)

text \<open>
  Claim C1 says that classifying a KICK line for channel C and nick N removes N from
  the user map of C and returns a KICK event carrying origin, channel, kicked nick
  and reason. On the line \<open>:op!o@h KICK #chan bob :bye\<close>, with \<open>bob\<close> a member of
  \<open>#chan\<close>, the classifier raises \<open>UnboundLocalError\<close> instead, and \<open>bob\<close> stays in
  the user map of \<open>#chan\<close>.
\<close>

theorem C1_kick_raises_unbound_local:
  "stream_dispatch '':op!o@h KICK #chan bob :bye''
     (irc0\<lparr>channels := [(''#chan'', PDict [(''USERS'', PDict [(''bob'', fresh_attrs)])])]\<rparr>)
   = (Inl UnboundLocalError,
      irc0\<lparr>channels := [(''#chan'', PDict [(''USERS'', PDict [(''bob'', fresh_attrs)])])]\<rparr>)"
  by (simp add: stream_dispatch_def stream_KICK_def split_ws_def is_space_def getitem_def
      Let_def irc0_def channel_at_KICK_def)

subsection \<open>C2: compaction at the high-water mark\<close>

text \<open>
  Below the mark, a buffered line in which \<open>PING :\<close> does not occur is returned and
  the cursor moves on by one: the buffer is left alone and no line is returned
  twice.
\<close>

lemma u_recv_plain:
  assumes "0 \<le> index s" and "index s < int (length (buffer s))" and "index s < 199"
    and "\<not> find_IRC (buffer s ! nat (index s)) ''PING :''"
  shows "u_recv C s = (Inr (buffer s ! nat (index s)), s\<lparr>index := index s + 1\<rparr>)"
  using assms by (simp add: u_recv_def getitem_def recv_loop.simps)

text \<open>
  With 200 such lines buffered, as after one burst from the server, 199 calls of
  \<open>_recv\<close> bring the cursor to 199 while the last line is still unread.
\<close>

lemma u_recv_reaches_mark:
  assumes "length (buffer s) = 200"
    and "\<forall>l \<in> set (buffer s). \<not> find_IRC l ''PING :''"
    and "index s = 0"
    and "n \<le> 199"
  shows "((\<lambda>s. snd (u_recv C s)) ^^ n) s = s\<lparr>index := int n\<rparr>"
  using assms(4)
proof (induction n)
  case 0
  show ?case using assms(3) by simp
next
  case (Suc n)
  let ?s = "s\<lparr>index := int n\<rparr>"
  have n: "n < 199" using Suc.prems by simp
  have "buffer s ! n \<in> set (buffer s)" using assms(1) n by simp
  then have "\<not> find_IRC (buffer ?s ! nat (index ?s)) ''PING :''" using assms(2) by simp
  then have "u_recv C ?s = (Inr (buffer ?s ! nat (index ?s)), ?s\<lparr>index := index ?s + 1\<rparr>)"
    using assms(1) n by (intro u_recv_plain) simp_all
  then have "snd (u_recv C ?s) = s\<lparr>index := int (Suc n)\<rparr>" by simp
  moreover have "((\<lambda>s. snd (u_recv C s)) ^^ n) s = ?s" using Suc.IH n by simp
  ultimately show ?case by simp
qed

text \<open>
  Claim C2 says that compaction at cursor 199 discards exactly the lines before the
  cursor and that every line at or after the cursor is still delivered. With 200
  lines buffered and the cursor at 199, the line at position 199 has not been
  delivered; \<open>_recv\<close> empties the whole buffer, reads the socket, and returns the
  line that arrives next. The unread line is gone from the buffer.
\<close>

theorem C2_reset_drops_unread_line:
  "u_recv example_codecs
     (irc0\<lparr>buffer := replicate 199 '':srv NOTICE * :old'' @ ['':srv NOTICE * :unread''],
           index := 199,
           sock_in := ['':srv NOTICE * :new'' @ clrf]\<rparr>)
   = (Inr '':srv NOTICE * :new'',
      irc0\<lparr>buffer := ['':srv NOTICE * :new''], index := 1\<rparr>)"
  by (simp add: u_recv_def irc0_def getitem_def recv_loop.simps find_IRC_def py_find_def
      u_resetbuffer_def mcon_def mcon_read.simps mcon_recv_def example_codecs_def
      clrf_def CR_def LF_def py_split_def)

subsection \<open>C3: a NICK line\<close>

text \<open>
  Where the old nick is in every channel, the rename works and keeps the attribute
  list. The new nick is everything after the command: a colon in front of it, as
  many servers send it, becomes part of the key.
\<close>

lemma NICK_renames_in_single_channel:
  "stream_dispatch '':alice!a@h NICK bob''
     (irc0\<lparr>channels := [(''#a'', PDict [(''USERS'', PDict [(''alice'', PList [PStr ''@''])])])]\<rparr>)
   = (Inr (NICK (Hostmask ''alice'' ''a'' ''h'') ''bob''),
      irc0\<lparr>channels := [(''#a'', PDict [(''USERS'', PDict [(''bob'', PList [PStr ''@''])])])]\<rparr>)"
  by (simp add: stream_dispatch_def stream_NICK_def split_ws_def is_space_def getitem_def
      Let_def irc0_def u_from_def py_split_max_def py_replace_max_def who0_def
      with_users_def dict_get_def val_get_def val_del_def val_set_def)

lemma NICK_keeps_colon_of_new_nick:
  "stream_dispatch '':alice!a@h NICK :bob''
     (irc0\<lparr>channels := [(''#a'', PDict [(''USERS'', PDict [(''alice'', PList [PStr ''@''])])])]\<rparr>)
   = (Inr (NICK (Hostmask ''alice'' ''a'' ''h'') '':bob''),
      irc0\<lparr>channels := [(''#a'', PDict [(''USERS'', PDict [('':bob'', PList [PStr ''@''])])])]\<rparr>)"
  by (simp add: stream_dispatch_def stream_NICK_def split_ws_def is_space_def getitem_def
      Let_def irc0_def u_from_def py_split_max_def py_replace_max_def who0_def
      with_users_def dict_get_def val_get_def val_del_def val_set_def)

text \<open>
  Claim C3 says that a NICK line renames the old nick in every channel where it was
  present and leaves the other channels alone. The loop of the \<open>NICK\<close> branch looks
  the old nick up in every channel without asking whether it is there. With the
  client in \<open>#b\<close>, where \<open>alice\<close> is not, and in \<open>#a\<close>, where \<open>alice\<close> is, the line
  \<open>:alice!a@h NICK bob\<close> raises \<open>KeyError\<close> at \<open>#b\<close>; \<open>#a\<close> still lists
  \<open>alice\<close> and not \<open>bob\<close>, and no event is returned.
\<close>

theorem C3_nick_raises_key_error:
  "stream_dispatch '':alice!a@h NICK bob''
     (irc0\<lparr>channels := [(''#b'', PDict [(''USERS'', PDict [(''carol'', fresh_attrs)])]),
                         (''#a'', PDict [(''USERS'', PDict [(''alice'', fresh_attrs)])])]\<rparr>)
   = (Inl KeyError,
      irc0\<lparr>channels := [(''#b'', PDict [(''USERS'', PDict [(''carol'', fresh_attrs)])]),
                         (''#a'', PDict [(''USERS'', PDict [(''alice'', fresh_attrs)])])]\<rparr>)"
  by (simp add: stream_dispatch_def stream_NICK_def split_ws_def is_space_def getitem_def
      Let_def irc0_def u_from_def py_split_max_def py_replace_max_def who0_def
      with_users_def dict_get_def val_get_def val_del_def val_set_def)

subsection \<open>C5: what the buffer reader skips\<close>

text \<open>
  Claim C5 says that the buffer reader skips only lines that begin with
  \<open>PING :\<close> and returns every other line once, in arrival order. \<open>_recv\<close> tests
  with \<open>IRC.find\<close>, which looks for the text anywhere in the line, where \<open>mcon\<close>
  tests \<open>line.find('PING :') == 0\<close>. A message from a user whose body holds
  \<open>PING :\<close> is skipped: the reader returns the line after it.
\<close>

theorem C5_recv_skips_message_containing_ping:
  "u_recv example_codecs
     (irc0\<lparr>buffer := ['':a!b@c PRIVMSG #ch :say PING :x'', '':n!u@h PRIVMSG #ch :second'']\<rparr>)
   = (Inr '':n!u@h PRIVMSG #ch :second'',
      irc0\<lparr>buffer := ['':a!b@c PRIVMSG #ch :say PING :x'', '':n!u@h PRIVMSG #ch :second''],
           index := 2\<rparr>)"
  by (simp add: u_recv_def irc0_def getitem_def recv_loop.simps find_IRC_def py_find_def)

subsection \<open>C9: what \<open>send\<close> writes\<close>

lemma ctl_distinct:
  "CR \<noteq> LF" "LF \<noteq> CR" "BSL \<noteq> LF" "BSL \<noteq> CR" "LF \<noteq> BSL" "CR \<noteq> BSL"
  "CHR ''r'' \<noteq> LF" "CHR ''n'' \<noteq> LF" "CHR ''r'' \<noteq> CR" "CHR ''n'' \<noteq> CR"
  "LF \<noteq> CHR ''r''" "LF \<noteq> CHR ''n''" "CR \<noteq> CHR ''r''" "CR \<noteq> CHR ''n''"
  by (simp_all add: CR_def LF_def BSL_def)

lemma replace_CR_then_LF:
  "py_replace [LF] [BSL, CHR ''n''] (py_replace [CR] [BSL, CHR ''r''] msg) = escape_crlf msg"
  by (induction msg) (auto simp: py_replace_def escape_crlf_def ctl_distinct)

lemma escape_crlf_clean: "CR \<notin> set (escape_crlf msg) \<and> LF \<notin> set (escape_crlf msg)"
  by (induction msg) (auto simp: escape_crlf_def ctl_distinct)

text \<open>
  Claim C9: for every message passed to \<open>send\<close>, what is written to the socket is
  the message with every carriage return and newline replaced by its two-character
  escape, followed by one CR-LF, so that the payload holds no raw CR or LF. The
  text is written through the codec: when the codec of \<open>self.encoding\<close> accepts the
  escaped line, \<open>send\<close> returns having written exactly its encoding; whenever
  \<open>send\<close> returns, it has written one item, the encoding of the escaped line under
  \<open>self.encoding\<close> or under the fallback; and the escaped message holds neither CR
  nor LF, so the terminator is the only CR-LF of the line.
\<close>

theorem C9_send_writes_escaped_line:
  "(encode C (encoding s) (escape_crlf msg @ clrf) = Inr data \<longrightarrow>
      send C msg s = (Inr (), s\<lparr>sock_out := sock_out s @ [data]\<rparr>)) \<and>
   (send C msg s = (Inr u, s') \<longrightarrow>
      (\<exists>d. s' = s\<lparr>sock_out := sock_out s @ [d]\<rparr> \<and>
           (encode C (encoding s) (escape_crlf msg @ clrf) = Inr d \<or>
            encode C (fallback_encoding s) (escape_crlf msg @ clrf) = Inr d))) \<and>
   CR \<notin> set (escape_crlf msg) \<and> LF \<notin> set (escape_crlf msg)"
proof -
  have a: "encode C (encoding s) (escape_crlf msg @ clrf) = Inr data \<longrightarrow>
      send C msg s = (Inr (), s\<lparr>sock_out := sock_out s @ [data]\<rparr>)"
    by (simp add: send_def replace_CR_then_LF Let_def)
  have b: "send C msg s = (Inr u, s') \<longrightarrow>
      (\<exists>d. s' = s\<lparr>sock_out := sock_out s @ [d]\<rparr> \<and>
           (encode C (encoding s) (escape_crlf msg @ clrf) = Inr d \<or>
            encode C (fallback_encoding s) (escape_crlf msg @ clrf) = Inr d))"
    by (auto simp: send_def replace_CR_then_LF Let_def split: sum.splits if_splits)
  show ?thesis using a b escape_crlf_clean by blast
qed

text \<open>
  A message that tries to smuggle a second command behind a CR-LF goes out as one
  line, under the example codecs.
\<close>

theorem C9_send_witness:
  "send example_codecs (''PRIVMSG #c :hi'' @ clrf @ ''QUIT'') irc0
     = (Inr (), irc0\<lparr>sock_out :=
          [''PRIVMSG #c :hi'' @ [BSL, CHR ''r'', BSL, CHR ''n''] @ ''QUIT'' @ clrf]\<rparr>)"
proof -
  have e: "escape_crlf (''PRIVMSG #c :hi'' @ clrf @ ''QUIT'')
            = ''PRIVMSG #c :hi'' @ [BSL, CHR ''r'', BSL, CHR ''n''] @ ''QUIT''"
    by (simp add: escape_crlf_def clrf_def CR_def LF_def BSL_def)
  have h: "encode example_codecs (encoding irc0)
             (escape_crlf (''PRIVMSG #c :hi'' @ clrf @ ''QUIT'') @ clrf)
           = Inr (''PRIVMSG #c :hi'' @ [BSL, CHR ''r'', BSL, CHR ''n''] @ ''QUIT'' @ clrf)"
    unfolding e by (simp add: example_codecs_def irc0_def)
  have "send example_codecs (''PRIVMSG #c :hi'' @ clrf @ ''QUIT'') irc0
          = (Inr (), irc0\<lparr>sock_out := sock_out irc0 @
               [''PRIVMSG #c :hi'' @ [BSL, CHR ''r'', BSL, CHR ''n''] @ ''QUIT'' @ clrf]\<rparr>)"
    using C9_send_writes_escaped_line
      [of example_codecs irc0 "''PRIVMSG #c :hi'' @ clrf @ ''QUIT''"
          "''PRIVMSG #c :hi'' @ [BSL, CHR ''r'', BSL, CHR ''n''] @ ''QUIT'' @ clrf"] h
    by blast
  moreover have "sock_out irc0 = []" by (simp add: irc0_def)
  ultimately show ?thesis by simp
qed

subsection \<open>C10: CTCP and ACTION texts are upper case\<close>








subsection \<open>C6: the reply to a CTCP VERSION request\<close>

text \<open>
  \<open>int\<close> on strings: underscores and the white space of Python 3, and the
  constant of the claim, which is no number.
\<close>

lemma py_int_examples:
  "py_int True ''1_0'' = Some 10"
  "py_int False ''1_0'' = None"
  "py_int True ([CHR 0x1F] @ ''1'') = None"
  "py_int True ([CHR 0xA0] @ ''1'') = Some 1"
  "py_int False ([CHR 0xA0] @ ''1'') = None"
  "py_int p3 '' 12 '' = Some 12"
  "py_int p3 ''-5'' = Some (- 5)"
  "py_int p3 ''+'' = None"
  "py_int True ''1__0'' = None"
  "py_int True ''_1'' = None"
  "py_int True ''1_'' = None"
  "py_int p3 ''Lurklib 1.0'' = None"
  by (simp_all add: py_int_def int_space_def is_digit_def digits_value_def)

lemma ctcp_loop_found:
  assumes "getitem segments 0 = Inr token"
    and "token \<in> set keys"
    and "dict_get (ctcps s) token = Inr v"
    and "v \<noteq> CNone"
    and "ctcp_response (py3 s) token v segments = Inr response"
    and "who0 w = Inr nick"
  shows "ctcp_loop keys segments w s
           = (Inr (), s\<lparr>calls := calls s @ [Call_notice nick (ctcp_encode response)]\<rparr>)"
  using assms by (induction keys) auto

text \<open>
  Claim C6 says that classifying \<open>:alice!a@h PRIVMSG #chan :\<close> followed by
  \<open>VERSION\<close> between two delimiters, with the CTCP table mapping \<open>VERSION\<close> to the
  constant \<open>Lurklib 1.0\<close>, returns the CTCP event and sends alice a NOTICE whose
  body is \<open>VERSION Lurklib 1.0\<close> between two delimiters. No such NOTICE is sent.
\<close>

theorem C6_notice_has_no_token_prefix:
  "Call_notice ''alice'' (ctcp_encode ''VERSION Lurklib 1.0'')
     \<notin> set (calls (snd (stream_dispatch
                ('':alice!a@h PRIVMSG #chan :'' @ [SOH] @ ''VERSION'' @ [SOH])
                (irc0\<lparr>ctcps := [(''VERSION'', CStr ''Lurklib 1.0'')]\<rparr>))))"
  by (simp add: stream_dispatch_def stream_PRIVMSG_def split_ws_def is_space_def getitem_def
      Let_def irc0_def u_from_def py_split_max_def py_replace_max_def py_replace_def
      py_find_def ctcp_decode_def ctcp_encode_def upper_def SOH_def dict_get_def
      ctcp_response_def py_int_def int_space_def is_digit_def who0_def)

text \<open>
  Claim C6 as amended: the event is as the claim says, and the NOTICE for alice
  carries the constant itself between two delimiters. A constant of the table is
  the reply as it stands; only an integer entry gets the token in front. This
  holds in every state whose CTCP table maps \<open>VERSION\<close> to that constant.
\<close>

theorem C6_version_reply_is_the_constant:
  assumes "map_of (ctcps s) ''VERSION'' = Some (CStr ''Lurklib 1.0'')"
  shows "stream_dispatch ('':alice!a@h PRIVMSG #chan :'' @ [SOH] @ ''VERSION'' @ [SOH]) s
           = (Inr (CTCP (Hostmask ''alice'' ''a'' ''h'') ''#chan'' ''VERSION''),
              s\<lparr>calls := calls s @ [Call_notice ''alice'' (ctcp_encode ''Lurklib 1.0'')]\<rparr>)"
proof -
  have key: "''VERSION'' \<in> set (map fst (ctcps s))"
    using assms by (force dest: map_of_SomeD)
  have resp: "ctcp_response (py3 s) ''VERSION'' (CStr ''Lurklib 1.0'') [''VERSION'']
                = Inr ''Lurklib 1.0''"
    by (simp add: ctcp_response_def py_int_def int_space_def is_digit_def Let_def)
  have loop: "ctcp_loop (map fst (ctcps s)) [''VERSION''] (Hostmask ''alice'' ''a'' ''h'') s
                = (Inr (), s\<lparr>calls := calls s @
                     [Call_notice ''alice'' (ctcp_encode ''Lurklib 1.0'')]\<rparr>)"
    by (rule ctcp_loop_found[where token = "''VERSION''" and v = "CStr ''Lurklib 1.0''"])
       (use key resp assms in \<open>simp_all add: getitem_def dict_get_def who0_def\<close>)
  show ?thesis
    by (simp add: stream_dispatch_def stream_PRIVMSG_def split_ws_def is_space_def getitem_def
        Let_def u_from_def py_split_max_def py_replace_max_def py_replace_def
        py_find_def ctcp_decode_def upper_def SOH_def loop)
qed

theorem C6_version_reply_witness:
  "stream_dispatch ('':alice!a@h PRIVMSG #chan :'' @ [SOH] @ ''VERSION'' @ [SOH])
     (irc0\<lparr>ctcps := [(''VERSION'', CStr ''Lurklib 1.0'')]\<rparr>)
   = (Inr (CTCP (Hostmask ''alice'' ''a'' ''h'') ''#chan'' ''VERSION''),
      irc0\<lparr>ctcps := [(''VERSION'', CStr ''Lurklib 1.0'')],
           calls := [Call_notice ''alice'' (ctcp_encode ''Lurklib 1.0'')]\<rparr>)"
proof -
  have h: "map_of (ctcps (irc0\<lparr>ctcps := [(''VERSION'', CStr ''Lurklib 1.0'')]\<rparr>)) ''VERSION''
             = Some (CStr ''Lurklib 1.0'')"
    by simp
  show ?thesis using C6_version_reply_is_the_constant[OF h] by (simp add: irc0_def)
qed

subsection \<open>C7: numeric replies of the error-code set\<close>


text \<open>
  Any other numeric reply reaches the last branch of \<open>stream\<close>, which hands the
  line to \<open>_parse\<close>. With \<open>_parse\<close> as the specification describes it, an
  \<open>UNKNOWN\<close> event comes back for a line whose code is in the set; this rests on
  the specification's account of \<open>_parse\<close>, not on the source.
\<close>

lemma stream_hands_other_numeric_to_parse:
  "stream example_codecs 1000
     (irc0\<lparr>error_dictionary := [''433''],
           buffer := ['':srv 433 * nick :Nickname is already in use'']\<rparr>)
   = (Inr (Some (UNKNOWN '':srv 433 * nick :Nickname is already in use'')),
      irc0\<lparr>error_dictionary := [''433''],
           buffer := ['':srv 433 * nick :Nickname is already in use''],
           index := 1,
           calls := [Call_parse '':srv 433 * nick :Nickname is already in use'']\<rparr>)"
  by (simp add: stream_def u_recv_def irc0_def getitem_def recv_loop.simps find_IRC_def
      py_find_def stream_dispatch_def split_ws_def is_space_def Let_def u_parse_def)



subsection \<open>C8: decoding with the fallback encoding\<close>







subsection \<open>C4: answering a keep-alive probe\<close>

lemma send_Inr:
  assumes "send C m s = (Inr u, s')"
  shows "\<exists>d. s' = s\<lparr>sock_out := sock_out s @ [d]\<rparr> \<and>
             (encode C (encoding s) (escape_crlf m @ clrf) = Inr d \<or>
              encode C (fallback_encoding s) (escape_crlf m @ clrf) = Inr d)"
  using assms
  by (auto simp: send_def replace_CR_then_LF Let_def split: sum.splits if_splits)

lemma send_keeps:
  "encoding (snd (send C m s)) = encoding s"
  "fallback_encoding (snd (send C m s)) = fallback_encoding s"
  "prefix (sock_out s) (sock_out (snd (send C m s)))"
  by (auto simp: send_def Let_def split: sum.splits)

lemma mcon_lines_keeps:
  "encoding (snd (mcon_lines C ls s)) = encoding s \<and>
   fallback_encoding (snd (mcon_lines C ls s)) = fallback_encoding s \<and>
   prefix (sock_out s) (sock_out (snd (mcon_lines C ls s)))"
proof (induction ls arbitrary: s)
  case Nil
  show ?case by simp
next
  case (Cons l ls)
  obtain r s1 where r: "send C (py_replace ''PING'' ''PONG'' l) s = (r, s1)"
    by (cases "send C (py_replace ''PING'' ''PONG'' l) s")
  have k: "encoding s1 = encoding s" "fallback_encoding s1 = fallback_encoding s"
    "prefix (sock_out s) (sock_out s1)"
    using send_keeps[where C = C and m = "py_replace ''PING'' ''PONG'' l" and s = s] r by simp_all
  show ?case
  proof (cases "py_find l ''PING :'' = 0")
    case False
    then show ?thesis
      using Cons.IH[of s] Cons.IH[of "s\<lparr>buffer := buffer s @ [l]\<rparr>"] by simp
  next
    case True
    show ?thesis
    proof (cases r)
      case (Inl e)
      with True r k show ?thesis by simp
    next
      case (Inr u)
      with True r k show ?thesis
        using Cons.IH[of s1] Cons.IH[of "s1\<lparr>buffer := buffer s1 @ [l]\<rparr>"]
        by (auto intro: prefix_order.trans)
    qed
  qed
qed

text \<open>
  Every line of the batch that begins with \<open>PING :\<close> has been answered when
  \<open>mcon\<close> returns: the escaped line with \<open>PONG\<close> for every \<open>PING\<close>, encoded, is
  among what the call wrote.
\<close>

lemma mcon_lines_pong:
  assumes "mcon_lines C ls s = (Inr u, s')"
    and "l \<in> set ls"
    and "py_find l ''PING :'' = 0"
  shows "\<exists>d \<in> set (drop (length (sock_out s)) (sock_out s')).
           encode C (encoding s) (escape_crlf (py_replace ''PING'' ''PONG'' l) @ clrf) = Inr d \<or>
           encode C (fallback_encoding s) (escape_crlf (py_replace ''PING'' ''PONG'' l) @ clrf)
             = Inr d"
  using assms
proof (induction ls arbitrary: s)
  case Nil
  then show ?case by simp
next
  case (Cons l0 ls)
  define r where "r = (if py_find l0 ''PING :'' = 0
                       then send C (py_replace ''PING'' ''PONG'' l0) s else (Inr (), s))"
  obtain q s1 where q: "r = (q, s1)" by (cases r)
  have notInl: "q = Inr ()"
    using Cons.prems(1) q unfolding r_def by (cases q) (auto split: if_splits)
  define s2 where "s2 = (if l0 \<noteq> [] then s1\<lparr>buffer := buffer s1 @ [l0]\<rparr> else s1)"
  have rest: "mcon_lines C ls s2 = (Inr u, s')"
    using Cons.prems(1) q notInl unfolding r_def s2_def by (auto split: if_splits)
  have k: "encoding s1 = encoding s" "fallback_encoding s1 = fallback_encoding s"
    "prefix (sock_out s) (sock_out s1)"
    using q send_keeps[where C = C and m = "py_replace ''PING'' ''PONG'' l0" and s = s]
    unfolding r_def
    by (auto split: if_splits)
  have k2: "encoding s2 = encoding s" "fallback_encoding s2 = fallback_encoding s"
    "sock_out s2 = sock_out s1"
    using k unfolding s2_def by auto
  have p2: "prefix (sock_out s2) (sock_out s')"
    using mcon_lines_keeps[of C ls s2] rest by simp
  show ?case
  proof (cases "l = l0")
    case True
    then have "send C (py_replace ''PING'' ''PONG'' l) s = (Inr (), s1)"
      using Cons.prems(3) q notInl unfolding r_def by simp
    from send_Inr[OF this] obtain d where
      d: "s1 = s\<lparr>sock_out := sock_out s @ [d]\<rparr>"
         "encode C (encoding s) (escape_crlf (py_replace ''PING'' ''PONG'' l) @ clrf) = Inr d \<or>
          encode C (fallback_encoding s) (escape_crlf (py_replace ''PING'' ''PONG'' l) @ clrf)
            = Inr d"
      by blast
    from p2 k2(3) d(1) obtain more where "sock_out s' = (sock_out s @ [d]) @ more"
      by (auto simp: prefix_def)
    then have "d \<in> set (drop (length (sock_out s)) (sock_out s'))" by simp
    with d(2) show ?thesis by blast
  next
    case False
    then have "l \<in> set ls" using Cons.prems(2) by simp
    from Cons.IH[OF rest this Cons.prems(3)] obtain d where
      d: "d \<in> set (drop (length (sock_out s2)) (sock_out s'))"
         "encode C (encoding s2) (escape_crlf (py_replace ''PING'' ''PONG'' l) @ clrf) = Inr d \<or>
          encode C (fallback_encoding s2) (escape_crlf (py_replace ''PING'' ''PONG'' l) @ clrf)
            = Inr d"
      by blast
    have "length (sock_out s) \<le> length (sock_out s2)"
      using k(3) k2(3) by (simp add: prefix_length_le)
    then have "set (drop (length (sock_out s2)) (sock_out s'))
                 \<subseteq> set (drop (length (sock_out s)) (sock_out s'))"
      by (rule set_drop_subset_set_drop)
    with d k2 show ?thesis by auto
  qed
qed

text \<open>
  The reply to \<open>PING :t\<close> is \<open>PONG :\<close> followed by \<open>t\<close> with its own occurrences
  of \<open>PING\<close> replaced and its carriage returns and newlines escaped; it is \<open>t\<close>
  itself when \<open>t\<close> holds none of these.
\<close>

lemma replace_PING_line:
  "py_replace ''PING'' ''PONG'' (''PING :'' @ t) = ''PONG :'' @ py_replace ''PING'' ''PONG'' t"
  by (simp add: py_replace_def)

lemma replace_from_absent:
  "old \<noteq> [] \<Longrightarrow> find_from old i t = - 1 \<Longrightarrow> replace_from old new cnt t = t"
  by (induction t arbitrary: i cnt) (auto split: if_splits)

lemma escape_crlf_id: "CR \<notin> set t \<Longrightarrow> LF \<notin> set t \<Longrightarrow> escape_crlf t = t"
  by (induction t) (auto simp: escape_crlf_def)

lemma escape_crlf_append: "escape_crlf (a @ b) = escape_crlf a @ escape_crlf b"
  by (simp add: escape_crlf_def)

lemma pong_reply_clean:
  assumes "CR \<notin> set t" "LF \<notin> set t" "py_find t ''PING'' = - 1"
  shows "escape_crlf (py_replace ''PING'' ''PONG'' (''PING :'' @ t)) = ''PONG :'' @ t"
proof -
  have "py_replace ''PING'' ''PONG'' t = t"
    using assms(3) replace_from_absent[of "''PING''" 0 t] by (simp add: py_replace_def py_find_def)
  then have "py_replace ''PING'' ''PONG'' (''PING :'' @ t) = ''PONG :'' @ t"
    by (simp only: replace_PING_line)
  moreover have "escape_crlf (''PONG :'' @ t) = ''PONG :'' @ t"
    using assms(1,2) by (intro escape_crlf_id) (auto simp: CR_def LF_def)
  ultimately show ?thesis by simp
qed

text \<open>\<open>_recv\<close> never returns a line in which \<open>PING :\<close> occurs.\<close>

lemma recv_loop_no_ping:
  "recv_loop C msg s = (Inr m, s') \<Longrightarrow> \<not> find_IRC m ''PING :''"
proof (induction C msg s rule: recv_loop.induct)
  case (1 C msg s)
  show ?case
  proof (cases "find_IRC msg ''PING :''")
    case False
    then have "m = msg" using "1.prems" by (subst (asm) recv_loop.simps) simp
    with False show ?thesis by simp
  next
    case True
    show ?thesis
    proof (cases "getitem (buffer s) (index s + 1)")
      case (Inr msg')
      then have "recv_loop C msg' (s\<lparr>index := index s + 1\<rparr>) = (Inr m, s')"
        using "1.prems" True by (subst (asm) recv_loop.simps) simp
      then show ?thesis using "1.IH"(2)[OF True Inr] by simp
    next
      case (Inl e)
      obtain q s1 where q: "mcon C (s\<lparr>index := index s + 1\<rparr>) = (q, s1)"
        by (cases "mcon C (s\<lparr>index := index s + 1\<rparr>)")
      show ?thesis
      proof (cases q)
        case (Inl e')
        then show ?thesis
          using "1.prems" True \<open>getitem (buffer s) (index s + 1) = Inl e\<close> q
          by (subst (asm) recv_loop.simps) simp
      next
        case (Inr u)
        then have "recv_loop C msg (s1\<lparr>index := index s1 - 1\<rparr>) = (Inr m, s')"
          using "1.prems" True \<open>getitem (buffer s) (index s + 1) = Inl e\<close> q
          by (subst (asm) recv_loop.simps) simp
        then show ?thesis
          using "1.IH"(1)[OF True \<open>getitem (buffer s) (index s + 1) = Inl e\<close> _ _ ] q Inr
          by simp
      qed
    qed
  qed
qed

lemma u_recv_no_ping:
  "u_recv C s = (Inr m, s') \<Longrightarrow> \<not> find_IRC m ''PING :''"
  unfolding u_recv_def
  by (auto split: prod.splits sum.splits if_splits dest: recv_loop_no_ping)

text \<open>
  Claim C4 says that for every token \<open>t\<close> a framed line \<open>PING :t\<close> makes the framer
  write \<open>PONG :t\<close> and the line terminator. The framer splits at CR-LF only, so a
  line may hold a lone newline, and \<open>send\<close> escapes it: for the line \<open>PING :a\<close>,
  newline, \<open>b\<close> the reply holds a backslash and \<open>n\<close> where the token holds the
  newline. And \<open>line.replace('PING', 'PONG')\<close> replaces every \<open>PING\<close> of the line:
  the reply to \<open>PING :PINGUIN.example.net\<close> names \<open>PONGUIN.example.net\<close>.
\<close>

theorem C4_reply_is_not_always_the_token:
  "sock_out (snd (mcon example_codecs (irc0\<lparr>sock_in := [''PING :a'' @ [LF] @ ''b'' @ clrf]\<rparr>)))
     = [''PONG :a'' @ [BSL, CHR ''n''] @ ''b'' @ clrf] \<and>
   ''PONG :a'' @ [BSL, CHR ''n''] @ ''b'' @ clrf \<noteq> ''PONG :a'' @ [LF] @ ''b'' @ clrf \<and>
   sock_out (snd (mcon example_codecs (irc0\<lparr>sock_in := [''PING :PINGUIN.example.net'' @ clrf]\<rparr>)))
     = [''PONG :PONGUIN.example.net'' @ clrf] \<and>
   ''PONG :PONGUIN.example.net'' @ clrf \<noteq> ''PONG :PINGUIN.example.net'' @ clrf"
  by (simp add: mcon_def mcon_read.simps mcon_recv_def getitem_def clrf_def CR_def LF_def BSL_def
      irc0_def example_codecs_def py_split_def py_find_def py_replace_def send_def Let_def)

text \<open>
  Claim C4 as amended: for every token \<open>t\<close> that holds no carriage return, no
  newline and no occurrence of \<open>PING\<close>, a framed line \<open>PING :t\<close> in the batch that
  \<open>mcon\<close> reads makes that call of \<open>mcon\<close>, when it returns, write \<open>PONG :t\<close>
  followed by the line terminator, encoded with the primary or the fallback
  encoding; and the buffer reader \<open>_recv\<close> never returns that line.
\<close>

theorem C4_clean_ping_is_answered_and_never_delivered:
  assumes "CR \<notin> set t" and "LF \<notin> set t" and "py_find t ''PING'' = - 1"
    and "mcon_read C s '' '' (sock_in s) = (Inr sdata, rest)"
    and "''PING :'' @ t \<in> set (py_split clrf sdata)"
    and "mcon C s = (Inr u, s')"
  shows "(\<exists>d \<in> set (drop (length (sock_out s)) (sock_out s')).
            encode C (encoding s) (''PONG :'' @ t @ clrf) = Inr d \<or>
            encode C (fallback_encoding s) (''PONG :'' @ t @ clrf) = Inr d) \<and>
         (\<forall>s1. fst (u_recv C s1) \<noteq> Inr (''PING :'' @ t))"
proof -
  have lines: "mcon_lines C (py_split clrf sdata) (s\<lparr>sock_in := rest\<rparr>) = (Inr u, s')"
    using assms(4,6) by (simp add: mcon_def)
  have starts: "py_find (''PING :'' @ t) ''PING :'' = 0"
    by (simp add: py_find_def)
  from mcon_lines_pong[OF lines assms(5) starts] obtain d where
    d: "d \<in> set (drop (length (sock_out s)) (sock_out s'))"
       "encode C (encoding s)
          (escape_crlf (py_replace ''PING'' ''PONG'' (''PING :'' @ t)) @ clrf) = Inr d \<or>
        encode C (fallback_encoding s)
          (escape_crlf (py_replace ''PING'' ''PONG'' (''PING :'' @ t)) @ clrf) = Inr d"
    by auto
  have reply: "escape_crlf (py_replace ''PING'' ''PONG'' (''PING :'' @ t)) @ clrf
                 = ''PONG :'' @ t @ clrf"
    using pong_reply_clean[OF assms(1,2,3)] by simp
  have written: "\<exists>d \<in> set (drop (length (sock_out s)) (sock_out s')).
            encode C (encoding s) (''PONG :'' @ t @ clrf) = Inr d \<or>
            encode C (fallback_encoding s) (''PONG :'' @ t @ clrf) = Inr d"
    using d unfolding reply by blast
  have probe: "find_IRC (''PING :'' @ t) ''PING :''"
    using starts by (simp add: find_IRC_def)
  have "fst (u_recv C s1) \<noteq> Inr (''PING :'' @ t)" for s1
  proof
    assume a: "fst (u_recv C s1) = Inr (''PING :'' @ t)"
    obtain s2 where "u_recv C s1 = (Inr (''PING :'' @ t), s2)"
      using a by (cases "u_recv C s1") simp
    from u_recv_no_ping[OF this] probe show False by simp
  qed
  with written show ?thesis by blast
qed

text \<open>
  The usual probe, a server name for token: the reply is written, and the line
  stays out of what the reader returns.
\<close>

theorem C4_clean_ping_witness:
  "sock_out (snd (mcon example_codecs (irc0\<lparr>sock_in := [''PING :irc.example.net'' @ clrf]\<rparr>)))
     = [''PONG :irc.example.net'' @ clrf] \<and>
   (\<exists>d \<in> set (drop (length (sock_out (irc0\<lparr>sock_in := [''PING :irc.example.net'' @ clrf]\<rparr>)))
                 [''PONG :irc.example.net'' @ clrf]).
      encode example_codecs (encoding (irc0\<lparr>sock_in := [''PING :irc.example.net'' @ clrf]\<rparr>))
        (''PONG :'' @ ''irc.example.net'' @ clrf) = Inr d \<or>
      encode example_codecs
        (fallback_encoding (irc0\<lparr>sock_in := [''PING :irc.example.net'' @ clrf]\<rparr>))
        (''PONG :'' @ ''irc.example.net'' @ clrf) = Inr d) \<and>
   (\<forall>s1. fst (u_recv example_codecs s1) \<noteq> Inr (''PING :'' @ ''irc.example.net''))"
proof -
  have h1: "CR \<notin> set ''irc.example.net''" by (simp add: CR_def)
  have h2: "LF \<notin> set ''irc.example.net''" by (simp add: LF_def)
  have h3: "py_find ''irc.example.net'' ''PING'' = - 1" by (simp add: py_find_def)
  have h4: "mcon_read example_codecs (irc0\<lparr>sock_in := [''PING :irc.example.net'' @ clrf]\<rparr>) '' ''
              (sock_in (irc0\<lparr>sock_in := [''PING :irc.example.net'' @ clrf]\<rparr>))
            = (Inr (''PING :irc.example.net'' @ clrf), [])"
    by (simp add: mcon_read.simps mcon_recv_def getitem_def clrf_def CR_def LF_def
        irc0_def example_codecs_def)
  have h5: "''PING :'' @ ''irc.example.net''
              \<in> set (py_split clrf (''PING :irc.example.net'' @ clrf))"
    by (simp add: py_split_def clrf_def CR_def LF_def)
  have h6: "mcon example_codecs (irc0\<lparr>sock_in := [''PING :irc.example.net'' @ clrf]\<rparr>)
            = (Inr (), irc0\<lparr>sock_out := [''PONG :irc.example.net'' @ clrf],
                            buffer := [''PING :irc.example.net'']\<rparr>)"
    by (simp add: mcon_def mcon_read.simps mcon_recv_def getitem_def clrf_def CR_def LF_def
        BSL_def irc0_def example_codecs_def py_split_def py_find_def py_replace_def send_def
        Let_def)
  have out: "sock_out (irc0\<lparr>sock_out := [''PONG :irc.example.net'' @ clrf],
                            buffer := [''PING :irc.example.net'']\<rparr>)
               = [''PONG :irc.example.net'' @ clrf]"
    by simp
  show ?thesis
    using C4_clean_ping_is_answered_and_never_delivered[OF h1 h2 h3 h4 h5 h6]
    unfolding h6 out by simp
qed

end
